theory Spec2Isabelle
  imports Complex_Main
begin

section \<open>JavaScript values used by the calculator\<close>

text \<open>
  The calculator of \<^verbatim>\<open>src/App.tsx\<close> keeps its operands as strings and does its
  arithmetic on JavaScript numbers. A JavaScript string is modelled as a \<open>string\<close>, one
  \<open>char\<close> for each code unit below 256; every string literal of the source fits, the
  division sign U+00F7 being the single character \<open>CHR 0xF7\<close>.

  A JavaScript number is an IEEE 754 binary64 value. The finite ones are exactly the
  rationals \<open>m * 2 ^ e\<close> with \<open>\<bar>m\<bar> < 2 ^ 53\<close> and \<open>- 1074 \<le> e \<le> 971\<close>, so a finite
  number is modelled by the rational it denotes, and every arithmetic operation computes
  the exact rational result and rounds it to the nearest such value, ties to the even
  significand. \<open>Fin 0\<close> is the positive zero.
\<close>

datatype number = NaN | PosInf | NegInf | NegZero | Fin rat

subsection \<open>Rounding a rational to binary64\<close>

definition pow2 :: "int \<Rightarrow> rat" where
  "pow2 e = (if 0 \<le> e then 2 ^ nat e else 1 / 2 ^ nat (- e))"

definition pow10 :: "int \<Rightarrow> rat" where
  "pow10 e = (if 0 \<le> e then 10 ^ nat e else 1 / 10 ^ nat (- e))"

function bit_length :: "int \<Rightarrow> int" where
  "bit_length n = (if n \<le> 0 then 0 else 1 + bit_length (n div 2))"
  by pat_completeness auto
termination
  by (relation "measure nat") auto

text \<open>
  \<open>floor_log2 q\<close> is the integer \<open>t\<close> with \<open>2 ^ t \<le> q < 2 ^ (t + 1)\<close>, for \<open>0 < q\<close>: the
  bit lengths of numerator and denominator fix it up to one, and a comparison decides.
\<close>

definition floor_log2 :: "rat \<Rightarrow> int" where
  "floor_log2 q =
     (let (a, b) = quotient_of q;
          t = bit_length a - bit_length b
      in if pow2 t \<le> q then t else t - 1)"

definition round_half_even :: "rat \<Rightarrow> int" where
  "round_half_even r =
     (let f = \<lfloor>r\<rfloor>; d = r - of_int f
      in if d < 1 / 2 then f
         else if 1 / 2 < d then f + 1
         else if even f then f else f + 1)"

text \<open>
  The nearest binary64 value of a positive rational \<open>q\<close>: the significand \<open>m\<close> has 53
  bits and the last of them has the weight \<open>2 ^ e\<close>, with \<open>e\<close> no smaller than \<open>- 1074\<close>
  (the subnormal range). The result \<open>m * 2 ^ e\<close> is infinite from \<open>2 ^ 1024\<close> on: as
  \<open>2 ^ 52 \<le> m \<le> 2 ^ 53\<close> for \<open>e > - 1074\<close>, that is when \<open>e\<close> exceeds \<open>971\<close>, or
  equals it with the significand rounded up to \<open>2 ^ 53\<close>.
\<close>

definition round_pos :: "rat \<Rightarrow> number" where
  "round_pos q =
     (let e = max (floor_log2 q - 52) (- 1074);
          m = round_half_even (q / pow2 e)
      in if 971 < e \<or> (e = 971 \<and> m = 2 ^ 53) then PosInf
         else Fin (of_int m * pow2 e))"

fun js_neg :: "number \<Rightarrow> number" where
  "js_neg NaN = NaN"
| "js_neg PosInf = NegInf"
| "js_neg NegInf = PosInf"
| "js_neg NegZero = Fin 0"
| "js_neg (Fin q) = (if q = 0 then NegZero else Fin (- q))"

definition to_number :: "rat \<Rightarrow> number" where
  "to_number q =
     (if q = 0 then Fin 0
      else if 0 < q then round_pos q
      else js_neg (round_pos (- q)))"

subsection \<open>Arithmetic on numbers\<close>

fun signbit :: "number \<Rightarrow> bool" where
  "signbit NaN = False"
| "signbit PosInf = False"
| "signbit NegInf = True"
| "signbit NegZero = True"
| "signbit (Fin q) = (q < 0)"

fun val :: "number \<Rightarrow> rat" where
  "val (Fin q) = q"
| "val _ = 0"

definition is_inf :: "number \<Rightarrow> bool" where
  "is_inf x = (x = PosInf \<or> x = NegInf)"

definition is_zero :: "number \<Rightarrow> bool" where
  "is_zero x = (x = NegZero \<or> x = Fin 0)"

definition mk_inf :: "bool \<Rightarrow> number" where
  "mk_inf neg = (if neg then NegInf else PosInf)"

definition mk_zero :: "bool \<Rightarrow> number" where
  "mk_zero neg = (if neg then NegZero else Fin 0)"

definition isNaN :: "number \<Rightarrow> bool" where
  "isNaN x = (x = NaN)"

text \<open>The operators \<^verbatim>\<open>+\<close>, \<^verbatim>\<open>-\<close>, \<^verbatim>\<open>*\<close> and \<^verbatim>\<open>/\<close> on numbers.\<close>

definition js_add :: "number \<Rightarrow> number \<Rightarrow> number" where
  "js_add x y =
     (if x = NaN \<or> y = NaN then NaN
      else if (x = PosInf \<and> y = NegInf) \<or> (x = NegInf \<and> y = PosInf) then NaN
      else if x = PosInf \<or> y = PosInf then PosInf
      else if x = NegInf \<or> y = NegInf then NegInf
      else if x = NegZero \<and> y = NegZero then NegZero
      else to_number (val x + val y))"

definition js_sub :: "number \<Rightarrow> number \<Rightarrow> number" where
  "js_sub x y = js_add x (js_neg y)"

definition js_mul :: "number \<Rightarrow> number \<Rightarrow> number" where
  "js_mul x y =
     (if x = NaN \<or> y = NaN then NaN
      else if (is_inf x \<and> is_zero y) \<or> (is_zero x \<and> is_inf y) then NaN
      else if is_inf x \<or> is_inf y then mk_inf (signbit x \<noteq> signbit y)
      else if val x * val y = 0 then mk_zero (signbit x \<noteq> signbit y)
      else to_number (val x * val y))"

definition js_div :: "number \<Rightarrow> number \<Rightarrow> number" where
  "js_div x y =
     (if x = NaN \<or> y = NaN then NaN
      else if is_inf x \<and> is_inf y then NaN
      else if is_zero x \<and> is_zero y then NaN
      else if is_inf x then mk_inf (signbit x \<noteq> signbit y)
      else if is_inf y then mk_zero (signbit x \<noteq> signbit y)
      else if is_zero y then mk_inf (signbit x \<noteq> signbit y)
      else if is_zero x then mk_zero (signbit x \<noteq> signbit y)
      else to_number (val x / val y))"

text \<open>
  \<^verbatim>\<open>Math.round\<close>: the nearest integer, a tie going up; a negative argument that rounds
  to zero gives the negative zero. The result is always a binary64 value.
\<close>

fun Math_round :: "number \<Rightarrow> number" where
  "Math_round (Fin q) =
     (if \<lfloor>q + 1 / 2\<rfloor> = 0 \<and> q < 0 then NegZero else Fin (of_int \<lfloor>q + 1 / 2\<rfloor>))"
| "Math_round x = x"

subsection \<open>Decimal digits\<close>

definition is_digit :: "char \<Rightarrow> bool" where
  "is_digit c = (c \<in> set ''0123456789'')"

text \<open>
  Values are integers of type \<open>int\<close> throughout, so that the kernel computes on binary
  numerals. \<open>digits n\<close> is the decimal representation of \<open>n \<ge> 0\<close>.
\<close>

definition digit_val :: "char \<Rightarrow> int" where
  "digit_val c = of_char c - 48"

definition int_of_digits :: "string \<Rightarrow> int" where
  "int_of_digits ds = foldl (\<lambda>a c. 10 * a + digit_val c) 0 ds"

definition digit_char :: "int \<Rightarrow> char" where
  "digit_char d = ''0123456789'' ! nat d"

function digits :: "int \<Rightarrow> string" where
  "digits n = (if n < 10 then [digit_char n] else digits (n div 10) @ [digit_char (n mod 10)])"
  by pat_completeness auto
termination
  by (relation "measure nat") auto

subsection \<open>\<^verbatim>\<open>parseFloat\<close>\<close>

text \<open>
  \<^verbatim>\<open>parseFloat\<close> skips leading white space and reads the longest prefix that is a
  decimal literal: an optional sign, then \<^verbatim>\<open>Infinity\<close> or digits with an optional
  fraction and an optional exponent. Without such a prefix the result is \<open>NaN\<close>. The
  value of the literal is rounded to binary64; a literal of value zero keeps its sign.
\<close>

definition is_white_space :: "char \<Rightarrow> bool" where
  "is_white_space c =
     (c \<in> {CHR 0x09, CHR 0x0A, CHR 0x0B, CHR 0x0C, CHR 0x0D, CHR 0x20, CHR 0xA0})"

definition exponent_part :: "string \<Rightarrow> int" where
  "exponent_part r =
     (case r of
        [] \<Rightarrow> 0
      | c # r' \<Rightarrow>
          if c = CHR ''e'' \<or> c = CHR ''E'' then
            (let neg = (r' \<noteq> [] \<and> hd r' = CHR ''-'');
                 r'' = (if r' \<noteq> [] \<and> (hd r' = CHR ''-'' \<or> hd r' = CHR ''+'') then tl r' else r');
                 ds = takeWhile is_digit r''
             in if ds = [] then 0
                else if neg then - int_of_digits ds else int_of_digits ds)
          else 0)"

definition parseFloat :: "string \<Rightarrow> number" where
  "parseFloat str =
     (let t = dropWhile is_white_space str;
          neg = (t \<noteq> [] \<and> hd t = CHR ''-'');
          u = (if t \<noteq> [] \<and> (hd t = CHR ''-'' \<or> hd t = CHR ''+'') then tl t else t)
      in if take 8 u = ''Infinity'' then mk_inf neg
         else
           (let ip = takeWhile is_digit u;
                r1 = dropWhile is_digit u;
                has_dot = (r1 \<noteq> [] \<and> hd r1 = CHR ''.'');
                fp = (if has_dot then takeWhile is_digit (tl r1) else []);
                r2 = (if has_dot then dropWhile is_digit (tl r1) else r1)
            in if ip = [] \<and> fp = [] then NaN
               else
                 (let mv = of_int (int_of_digits (ip @ fp))
                             * pow10 (exponent_part r2 - int (length fp))
                  in if mv = 0 then mk_zero neg
                     else if neg then js_neg (round_pos mv) else round_pos mv)))"

subsection \<open>\<^verbatim>\<open>Number.prototype.toString\<close>\<close>

text \<open>
  For a positive finite number \<open>q\<close> the language definition asks for integers \<open>n\<close>,
  \<open>k\<close> and \<open>s\<close> with \<open>k \<ge> 1\<close>, \<open>10 ^ (k - 1) \<le> s < 10 ^ k\<close>, such that \<open>s * 10 ^ (n - k)\<close>
  rounds to \<open>q\<close>, and \<open>k\<close> as small as possible: the shortest digits that read back as the
  same number. For each \<open>k\<close>, the candidates are the two integers next to
  \<open>q / 10 ^ (n - k)\<close>, for the two values of \<open>n\<close> that the size of \<open>q\<close> allows; among the
  candidates of the least \<open>k\<close> that has one, the closest to \<open>q\<close> is taken.
\<close>

definition floor_log10 :: "rat \<Rightarrow> int" where
  "floor_log10 q =
     (let (a, b) = quotient_of q;
          t = int (length (digits a)) - int (length (digits b))
      in if pow10 t \<le> q then t else t - 1)"

definition candidates :: "rat \<Rightarrow> nat \<Rightarrow> (int \<times> int) list" where
  "candidates q k =
     [(s, n).
        n \<leftarrow> [floor_log10 q + 1, floor_log10 q + 2],
        s \<leftarrow> [\<lfloor>q / pow10 (n - int k)\<rfloor>, \<lfloor>q / pow10 (n - int k)\<rfloor> + 1],
        10 ^ (k - 1) \<le> s \<and> s < 10 ^ k \<and> round_pos (of_int s * pow10 (n - int k)) = Fin q]"

definition distance :: "rat \<Rightarrow> nat \<Rightarrow> int \<times> int \<Rightarrow> rat" where
  "distance q k c = \<bar>of_int (fst c) * pow10 (snd c - int k) - q\<bar>"

fun closest :: "rat \<Rightarrow> nat \<Rightarrow> int \<times> int \<Rightarrow> (int \<times> int) list \<Rightarrow> int \<times> int" where
  "closest q k c [] = c"
| "closest q k c (d # ds) =
     closest q k
       (if distance q k d < distance q k c
           \<or> (distance q k d = distance q k c \<and> even (fst d) \<and> odd (fst c))
        then d else c) ds"

text \<open>
  Seventeen digits identify every binary64 value, so the list of lengths is never
  exhausted on a value of the number type; the first equation only makes the search
  total.
\<close>

fun shortest_from :: "rat \<Rightarrow> nat list \<Rightarrow> int \<times> int" where
  "shortest_from q [] = (\<lfloor>q / pow10 (floor_log10 q - 16)\<rfloor>, floor_log10 q + 1)"
| "shortest_from q (k # ks) =
     (case candidates q k of
        [] \<Rightarrow> shortest_from q ks
      | c # cs \<Rightarrow> closest q k c cs)"

definition shortest :: "rat \<Rightarrow> int \<times> int" where
  "shortest q = shortest_from q [1..<18]"

text \<open>The layout of the digits \<open>ds\<close> of \<open>s\<close>, with the decimal point after \<open>n\<close> digits.\<close>

definition layout :: "string \<Rightarrow> int \<Rightarrow> string" where
  "layout ds n =
     (let k = int (length ds) in
      if k \<le> n \<and> n \<le> 21 then ds @ replicate (nat (n - k)) CHR ''0''
      else if 0 < n \<and> n \<le> 21 then take (nat n) ds @ ''.'' @ drop (nat n) ds
      else if - 6 < n \<and> n \<le> 0 then ''0.'' @ replicate (nat (- n)) CHR ''0'' @ ds
      else
        (let ex = (if n - 1 < 0 then ''-'' else ''+'') @ digits \<bar>n - 1\<bar>
         in if k = 1 then ds @ ''e'' @ ex
            else take 1 ds @ ''.'' @ drop 1 ds @ ''e'' @ ex))"

definition pos_to_string :: "rat \<Rightarrow> string" where
  "pos_to_string q = (let (s, n) = shortest q in layout (digits s) n)"

fun toString :: "number \<Rightarrow> string" where
  "toString NaN = ''NaN''"
| "toString PosInf = ''Infinity''"
| "toString NegInf = ''-Infinity''"
| "toString NegZero = ''0''"
| "toString (Fin q) =
     (if q = 0 then ''0''
      else if q < 0 then ''-'' @ pos_to_string (- q)
      else pos_to_string q)"

subsection \<open>\<^verbatim>\<open>Intl.NumberFormat('en-US').format\<close>\<close>

text \<open>
  With the default options the formatter writes at most three fraction digits, rounding
  a tie away from zero, drops trailing fraction zeros, and groups the integer digits in
  threes with commas. A negative zero, and a negative value that rounds to zero, keep
  their sign. The infinity sign U+221E lies outside the characters of this model and is
  written as the three bytes of its UTF-8 form.
\<close>

function group_thousands :: "string \<Rightarrow> string" where
  "group_thousands ds =
     (if length ds \<le> 3 then ds
      else group_thousands (take (length ds - 3) ds) @ '','' @ drop (length ds - 3) ds)"
  by pat_completeness auto
termination
  by (relation "measure length") auto

definition fraction_digits :: "int \<Rightarrow> string" where
  "fraction_digits f =
     rev (dropWhile (\<lambda>c. c = CHR ''0'')
       (rev (replicate (3 - length (digits f)) CHR ''0'' @ digits f)))"

definition format_fixed :: "rat \<Rightarrow> string" where
  "format_fixed a =
     (let n = \<lfloor>a * 1000 + 1 / 2\<rfloor>;
          frac = fraction_digits (n mod 1000)
      in group_thousands (digits (n div 1000)) @ (if frac = [] then [] else ''.'' @ frac))"

definition infinity_sign :: string where
  "infinity_sign = [CHR 0xE2, CHR 0x88, CHR 0x9E]"

fun NumberFormat_format :: "number \<Rightarrow> string" where
  "NumberFormat_format NaN = ''NaN''"
| "NumberFormat_format PosInf = infinity_sign"
| "NumberFormat_format NegInf = ''-'' @ infinity_sign"
| "NumberFormat_format NegZero = ''-0''"
| "NumberFormat_format (Fin q) =
     (if q < 0 then ''-'' @ format_fixed (- q) else format_fixed q)"

subsection \<open>Comparing strings\<close>

text \<open>
  The relational operators on two strings compare them code unit by code unit, a proper
  prefix being smaller.
\<close>

fun js_less :: "string \<Rightarrow> string \<Rightarrow> bool" where
  "js_less [] [] = False"
| "js_less [] (y # ys) = True"
| "js_less (x # xs) [] = False"
| "js_less (x # xs) (y # ys) =
     (if (of_char x :: nat) < of_char y then True
      else if (of_char y :: nat) < of_char x then False
      else js_less xs ys)"

definition js_less_eq :: "string \<Rightarrow> string \<Rightarrow> bool" where
  "js_less_eq a b = (\<not> js_less b a)"

section \<open>The calculator\<close>

text \<open>
  The four state variables of the component \<^verbatim>\<open>App\<close>, with the initial values given
  to \<^verbatim>\<open>useState\<close>. A handler reads the state of the render it was created in and
  queues the new values; handlers run one at a time, so each is a function from the state
  before the event to the state after it.
\<close>

record calculator_state =
  currentOperand :: string
  previousOperand :: string
  operation :: "string option"
  overwrite :: bool

definition initial_state :: calculator_state where
  "initial_state =
     \<lparr>currentOperand = [], previousOperand = [], operation = None, overwrite = False\<rparr>"

definition division_sign :: string where
  "division_sign = [CHR 0xF7]"

text \<open>
  \<^verbatim>\<open>formatOperand\<close> (lines 11 to 18). \<^verbatim>\<open>operand.split('.')\<close> cuts the operand at
  every decimal point and the pattern \<^verbatim>\<open>[integer, decimal]\<close> names the first two
  pieces: \<open>integer\<close> is what stands before the first point, and \<open>decimal\<close> is what
  stands between the first point and the second, or the end; it is undefined when the
  operand has no point. \<open>None\<close> is \<^verbatim>\<open>undefined\<close>.
\<close>

definition formatOperand :: "string option \<Rightarrow> string option" where
  "formatOperand operand =
     (case operand of
        None \<Rightarrow> None
      | Some s \<Rightarrow>
          if s = [] then None
          else
            (let integer = takeWhile (\<lambda>c. c \<noteq> CHR ''.'') s;
                 rest = dropWhile (\<lambda>c. c \<noteq> CHR ''.'') s
             in if rest = [] then Some (NumberFormat_format (parseFloat integer))
                else Some (NumberFormat_format (parseFloat integer) @ ''.''
                             @ takeWhile (\<lambda>c. c \<noteq> CHR ''.'') (tl rest))))"

text \<open>\<^verbatim>\<open>clear\<close> (lines 21 to 26) and \<^verbatim>\<open>deleteNumber\<close> (lines 29 to 37).\<close>

definition clear :: "calculator_state \<Rightarrow> calculator_state" where
  "clear s =
     s\<lparr>currentOperand := [], previousOperand := [], operation := None, overwrite := False\<rparr>"

definition deleteNumber :: "calculator_state \<Rightarrow> calculator_state" where
  "deleteNumber s =
     (if overwrite s then s\<lparr>currentOperand := [], overwrite := False\<rparr>
      else if currentOperand s = [] then s
      else s\<lparr>currentOperand := butlast (currentOperand s)\<rparr>)"

text \<open>
  \<^verbatim>\<open>appendNumber\<close> (lines 40 to 56). The update \<^verbatim>\<open>(prev) => prev + number\<close> is applied
  to the state that the handler has read.
\<close>

definition appendNumber :: "calculator_state \<Rightarrow> string \<Rightarrow> calculator_state" where
  "appendNumber s number =
     (if number = ''.'' \<and> CHR ''.'' \<in> set (currentOperand s) then s
      else if overwrite s then s\<lparr>currentOperand := number, overwrite := False\<rparr>
      else if number = ''0'' \<and> currentOperand s = ''0'' then s
      else if number = ''.'' \<and> currentOperand s = [] then s\<lparr>currentOperand := ''0.''\<rparr>
      else s\<lparr>currentOperand := currentOperand s @ number\<rparr>)"

text \<open>
  The \<^verbatim>\<open>switch\<close> on the pending operation, which \<^verbatim>\<open>compute\<close> and
  \<^verbatim>\<open>chooseOperation\<close> both contain; \<open>None\<close> is the \<^verbatim>\<open>default\<close> branch, where both
  return.
\<close>

definition switch_operation :: "string option \<Rightarrow> number \<Rightarrow> number \<Rightarrow> number option" where
  "switch_operation opn prev current =
     (if opn = Some ''+'' then Some (js_add prev current)
      else if opn = Some ''-'' then Some (js_sub prev current)
      else if opn = Some ''*'' then Some (js_mul prev current)
      else if opn = Some division_sign \<or> opn = Some ''/'' then Some (js_div prev current)
      else None)"

text \<open>\<^verbatim>\<open>Math.round(computation * 100000000) / 100000000\<close> (lines 85 and 115).\<close>

definition round8 :: "number \<Rightarrow> number" where
  "round8 computation =
     js_div (Math_round (js_mul computation (Fin 100000000))) (Fin 100000000)"

text \<open>\<^verbatim>\<open>compute\<close> (lines 59 to 91) and \<^verbatim>\<open>chooseOperation\<close> (lines 94 to 126).\<close>

definition compute :: "calculator_state \<Rightarrow> calculator_state" where
  "compute s =
     (let prev = parseFloat (previousOperand s);
          current = parseFloat (currentOperand s)
      in if isNaN prev \<or> isNaN current then s
         else
           (case switch_operation (operation s) prev current of
              None \<Rightarrow> s
            | Some computation \<Rightarrow>
                s\<lparr>currentOperand := toString (round8 computation),
                  operation := None,
                  previousOperand := [],
                  overwrite := True\<rparr>))"

definition chooseOperation :: "calculator_state \<Rightarrow> string \<Rightarrow> calculator_state" where
  "chooseOperation s op =
     (if currentOperand s = [] then s
      else if previousOperand s \<noteq> [] then
        (let prev = parseFloat (previousOperand s);
             current = parseFloat (currentOperand s)
         in if \<not> isNaN prev \<and> \<not> isNaN current then
              (case switch_operation (operation s) prev current of
                 None \<Rightarrow> s
               | Some computation \<Rightarrow>
                   s\<lparr>previousOperand := toString (round8 computation),
                     operation := Some op,
                     currentOperand := []\<rparr>)
            else s\<lparr>previousOperand := currentOperand s,
                   operation := Some op,
                   currentOperand := []\<rparr>)
      else s\<lparr>previousOperand := currentOperand s,
             operation := Some op,
             currentOperand := []\<rparr>)"

text \<open>
  \<^verbatim>\<open>handleKeyDown\<close> (lines 131 to 148), as a function of the \<^verbatim>\<open>key\<close> of the event.
  The first test compares strings.
\<close>

definition handleKeyDown :: "calculator_state \<Rightarrow> string \<Rightarrow> calculator_state" where
  "handleKeyDown s key =
     (if js_less_eq ''0'' key \<and> js_less_eq key ''9'' then appendNumber s key
      else if key = ''.'' then appendNumber s ''.''
      else if key = ''='' \<or> key = ''Enter'' then compute s
      else if key = ''Backspace'' then deleteNumber s
      else if key = ''Escape'' then clear s
      else if key = ''+'' \<or> key = ''-'' \<or> key = ''*'' \<or> key = ''/'' then
        chooseOperation s (if key = ''/'' then division_sign else key)
      else s)"

text \<open>
  The events of the component: the buttons call the five operations, the keyboard calls
  the listener. A run applies a list of events to the initial state, first event first.
\<close>

datatype event =
    Clear
  | DeleteNumber
  | AppendNumber string
  | ChooseOperation string
  | Compute
  | KeyDown string

fun step :: "calculator_state \<Rightarrow> event \<Rightarrow> calculator_state" where
  "step s Clear = clear s"
| "step s DeleteNumber = deleteNumber s"
| "step s (AppendNumber number) = appendNumber s number"
| "step s (ChooseOperation op) = chooseOperation s op"
| "step s Compute = compute s"
| "step s (KeyDown key) = handleKeyDown s key"

definition run :: "event list \<Rightarrow> calculator_state" where
  "run evs = foldl step initial_state evs"

section \<open>Notions used in the properties\<close>

text \<open>A number that is greater than zero; the positive infinity is one.\<close>

fun is_positive :: "number \<Rightarrow> bool" where
  "is_positive PosInf = True"
| "is_positive (Fin q) = (0 < q)"
| "is_positive _ = False"

text \<open>
  The shape that the data model gives to an operand: digits and at most one decimal
  point.
\<close>

definition operand_shape :: "string \<Rightarrow> bool" where
  "operand_shape s =
     (list_all (\<lambda>c. is_digit c \<or> c = CHR ''.'') s \<and> count_list s CHR ''.'' \<le> 1)"

text \<open>
  The arguments that the buttons give to \<^verbatim>\<open>appendNumber\<close>: one digit, or the decimal
  point. A key of the keyboard is named by one character or by a word that starts with a
  capital letter; \<open>plain_key\<close> holds of the names that are one character long and of those
  outside the range that the listener takes for digits.
\<close>

definition digit_entry :: "string \<Rightarrow> bool" where
  "digit_entry d = (d = ''.'' \<or> (length d = 1 \<and> list_all is_digit d))"

definition plain_key :: "string \<Rightarrow> bool" where
  "plain_key key = (length key = 1 \<or> \<not> (js_less_eq ''0'' key \<and> js_less_eq key ''9''))"

fun button_event :: "event \<Rightarrow> bool" where
  "button_event (AppendNumber number) = digit_entry number"
| "button_event (KeyDown key) = plain_key key"
| "button_event _ = True"

text \<open>
  The display of an operand in the words of the specification: the integer part, which
  is what stands before the first decimal point, rendered with thousands separators, and
  after it, when there is a decimal point, the point and the decimal digits as they are.
\<close>

definition claimed_format :: "string \<Rightarrow> string" where
  "claimed_format s =
     group_thousands (digits (int_of_digits (takeWhile (\<lambda>c. c \<noteq> CHR ''.'') s)))
       @ dropWhile (\<lambda>c. c \<noteq> CHR ''.'') s"

text \<open>The invariants of the state that the properties below establish.\<close>

definition operation_has_previous :: "calculator_state \<Rightarrow> bool" where
  "operation_has_previous s = (operation s = None \<or> previousOperand s \<noteq> [])"

definition operands_well_shaped :: "calculator_state \<Rightarrow> bool" where
  "operands_well_shaped s =
     ((\<not> overwrite s \<longrightarrow> operand_shape (currentOperand s))
      \<and> count_list (currentOperand s) CHR ''.'' \<le> 1
      \<and> count_list (previousOperand s) CHR ''.'' \<le> 1)"

section \<open>Facts about the JavaScript values\<close>

text \<open>
  The recursive equations of \<open>bit_length\<close>, \<open>digits\<close> and \<open>group_thousands\<close> are
  unfolded by hand.
\<close>

declare bit_length.simps [simp del] digits.simps [simp del] group_thousands.simps [simp del]

lemma quotient_of_of_int: "quotient_of (of_int n) = (n, 1)"
  by (metis Rat.of_int_def quotient_of_int)

lemma bit_length_le: "0 \<le> n \<Longrightarrow> n < 2 ^ k \<Longrightarrow> bit_length n \<le> int k"
proof (induction k arbitrary: n)
  case 0
  then have "n = 0" by simp
  then show ?case by (simp add: bit_length.simps)
next
  case (Suc k)
  show ?case
  proof (cases "n \<le> 0")
    case True
    then show ?thesis by (simp add: bit_length.simps)
  next
    case False
    have "n div 2 < 2 ^ k" using Suc.prems by simp
    moreover have "0 \<le> n div 2" using Suc.prems by simp
    ultimately have "bit_length (n div 2) \<le> int k" by (rule Suc.IH [rotated])
    then show ?thesis using False by (subst bit_length.simps) simp
  qed
qed

lemma bit_length_1: "bit_length 1 = 1"
  by code_simp

lemma floor_log2_of_int_le:
  assumes "0 < n" "n < 2 ^ 53"
  shows "floor_log2 (of_int n) \<le> 52"
proof -
  have "bit_length n \<le> 53"
    using bit_length_le [of n 53] assms by simp
  then show ?thesis
    by (simp add: floor_log2_def quotient_of_of_int bit_length_1 Let_def)
qed

lemma round_half_even_of_int: "round_half_even (of_int z) = z"
  by (simp add: round_half_even_def)

lemma div_pow2_nonpos: "e \<le> 0 \<Longrightarrow> of_int n / pow2 e = of_int (n * 2 ^ nat (- e))"
  by (cases "e = 0") (simp_all add: pow2_def)

lemma mult_pow2_nonpos: "e \<le> 0 \<Longrightarrow> of_int (n * 2 ^ nat (- e)) * pow2 e = of_int n"
  by (cases "e = 0") (simp_all add: pow2_def)

lemma round_pos_of_int:
  assumes "0 < n" "n < 2 ^ 53"
  shows "round_pos (of_int n) = Fin (of_int n)"
proof -
  define e where "e = max (floor_log2 (of_int n) - 52) (- 1074)"
  have e: "e \<le> 0"
    using floor_log2_of_int_le [OF assms] by (simp add: e_def)
  have m: "round_half_even (of_int n / pow2 e) = n * 2 ^ nat (- e)"
    by (simp only: div_pow2_nonpos [OF e] round_half_even_of_int)
  show ?thesis
    using e mult_pow2_nonpos [OF e, of n]
    by (simp add: round_pos_def Let_def e_def [symmetric] m)
qed

subsection \<open>Parsing and formatting a string of digits\<close>

lemma is_digit_cases:
  "is_digit c \<Longrightarrow> \<not> is_white_space c \<and> c \<noteq> CHR ''-'' \<and> c \<noteq> CHR ''+'' \<and> c \<noteq> CHR ''.''
     \<and> c \<noteq> CHR ''I'' \<and> 0 \<le> digit_val c"
  by (auto simp: is_digit_def is_white_space_def digit_val_def)

lemma takeWhile_all: "list_all P xs \<Longrightarrow> takeWhile P xs = xs"
  by (induction xs) auto

lemma dropWhile_all: "list_all P xs \<Longrightarrow> dropWhile P xs = []"
  by (induction xs) auto

lemma foldl_digits_nonneg:
  "list_all is_digit ds \<Longrightarrow> 0 \<le> a \<Longrightarrow> 0 \<le> foldl (\<lambda>a c. 10 * a + digit_val c) a ds"
proof (induction ds arbitrary: a)
  case Nil
  then show ?case by simp
next
  case (Cons c ds)
  have "0 \<le> digit_val c"
    using Cons.prems(1) is_digit_cases [of c] by simp
  then have "0 \<le> 10 * a + digit_val c"
    using Cons.prems(2) by simp
  then show ?case
    using Cons.IH [of "10 * a + digit_val c"] Cons.prems(1) by simp
qed

lemma int_of_digits_nonneg: "list_all is_digit ds \<Longrightarrow> 0 \<le> int_of_digits ds"
  by (simp add: int_of_digits_def foldl_digits_nonneg)

lemma parseFloat_digits:
  assumes "ip \<noteq> []" "list_all is_digit ip" "int_of_digits ip < 2 ^ 53"
  shows "parseFloat ip = Fin (of_int (int_of_digits ip))"
proof -
  obtain c cs where ip: "ip = c # cs"
    using assms(1) by (cases ip) auto
  have c: "is_digit c" using assms(2) ip by simp
  note cc = is_digit_cases [OF c]
  have t: "dropWhile is_white_space ip = ip"
    using cc by (simp add: ip)
  have inf: "take 8 ip \<noteq> ''Infinity''"
    using cc by (simp add: ip)
  have hd: "hd ip \<noteq> CHR ''-''" "hd ip \<noteq> CHR ''+''"
    using cc by (simp_all add: ip)
  have tw: "takeWhile is_digit ip = ip" "dropWhile is_digit ip = []"
    using assms(2) by (simp_all add: takeWhile_all dropWhile_all)
  have nn: "0 \<le> int_of_digits ip"
    using assms(2) by (rule int_of_digits_nonneg)
  have pf: "parseFloat ip =
      (if (of_int (int_of_digits ip) :: rat) = 0 then Fin 0
       else round_pos (of_int (int_of_digits ip)))"
    using assms(1) hd inf
    by (simp add: parseFloat_def t tw Let_def exponent_part_def pow10_def mk_zero_def)
  show ?thesis
  proof (cases "int_of_digits ip = 0")
    case True
    then show ?thesis by (simp add: pf)
  next
    case False
    then have "0 < int_of_digits ip" using nn by simp
    then show ?thesis
      using False assms(3) by (simp add: pf round_pos_of_int)
  qed
qed

lemma fraction_digits_0: "fraction_digits 0 = []"
  by code_simp

lemma format_fixed_of_int: "0 \<le> n \<Longrightarrow> format_fixed (of_int n) = group_thousands (digits n)"
proof -
  have "\<lfloor>(of_int n :: rat) * 1000 + 1 / 2\<rfloor> = n * 1000"
    by linarith
  then show ?thesis
    by (simp add: format_fixed_def Let_def fraction_digits_0)
qed

lemma NumberFormat_format_of_int:
  "0 \<le> n \<Longrightarrow> NumberFormat_format (Fin (of_int n)) = group_thousands (digits n)"
  by (simp add: format_fixed_of_int)

lemma count_le_1_split:
  "count_list s CHR ''.'' \<le> 1 \<Longrightarrow> dropWhile (\<lambda>c. c \<noteq> CHR ''.'') s = CHR ''.'' # r
   \<Longrightarrow> takeWhile (\<lambda>c. c \<noteq> CHR ''.'') r = r"
proof (induction s)
  case Nil
  then show ?case by simp
next
  case (Cons a s)
  show ?case
  proof (cases "a = CHR ''.''")
    case True
    then have r: "r = s" using Cons.prems(2) by simp
    have "count_list s CHR ''.'' = 0" using Cons.prems(1) True by simp
    then have "CHR ''.'' \<notin> set s" by (simp add: count_list_0_iff)
    then have "list_all (\<lambda>c. c \<noteq> CHR ''.'') s" by (auto simp: list_all_iff)
    then show ?thesis by (simp add: r takeWhile_all)
  next
    case False
    have "count_list s CHR ''.'' \<le> 1"
      using Cons.prems(1) False by simp
    moreover have "dropWhile (\<lambda>c. c \<noteq> CHR ''.'') s = CHR ''.'' # r"
      using Cons.prems(2) False by simp
    ultimately show ?thesis by (rule Cons.IH)
  qed
qed

subsection \<open>The strings that \<open>toString\<close> returns\<close>

lemma digits_nonempty: "digits n \<noteq> []"
  by (subst digits.simps) simp

lemma digit_char_is_digit: "d < 10 \<Longrightarrow> is_digit (digit_char d)"
proof -
  assume "d < 10"
  then have "nat d < length ''0123456789''" by simp
  then have "''0123456789'' ! nat d \<in> set ''0123456789''" by (rule nth_mem)
  then show ?thesis by (simp only: is_digit_def digit_char_def)
qed

lemma digits_all_digits: "list_all is_digit (digits n)"
proof (induction n rule: digits.induct)
  case (1 n)
  show ?case
  proof (cases "n < 10")
    case True
    then show ?thesis
      by (subst digits.simps) (simp add: digit_char_is_digit)
  next
    case False
    have "n mod 10 < 10" by simp
    then have "is_digit (digit_char (n mod 10))" by (rule digit_char_is_digit)
    then show ?thesis
      using False "1.IH" by (subst digits.simps) simp
  qed
qed

lemma no_dot_if_digits: "list_all is_digit ds \<Longrightarrow> count_list ds CHR ''.'' = 0"
proof -
  assume "list_all is_digit ds"
  then have "CHR ''.'' \<notin> set ds"
    using is_digit_cases by (auto simp: list_all_iff)
  then show ?thesis by (simp add: count_list_0_iff)
qed

lemma count_take_drop_0:
  "count_list ds c = 0 \<Longrightarrow> count_list (take n ds) c = 0 \<and> count_list (drop n ds) c = 0"
proof -
  assume "count_list ds c = 0"
  then have "c \<notin> set ds" by (simp add: count_list_0_iff)
  then have "c \<notin> set (take n ds)" "c \<notin> set (drop n ds)"
    by (auto dest: in_set_takeD in_set_dropD)
  then show ?thesis by (simp add: count_list_0_iff)
qed

lemma count_replicate_0: "count_list (replicate n CHR ''0'') CHR ''.'' = 0"
  by (simp add: count_list_0_iff)

lemma layout_nonempty: "ds \<noteq> [] \<Longrightarrow> layout ds n \<noteq> []"
  by (simp add: layout_def Let_def)

lemma layout_dots:
  assumes "list_all is_digit ds"
  shows "count_list (layout ds n) CHR ''.'' \<le> 1"
proof -
  have d: "count_list ds CHR ''.'' = 0"
    using assms by (rule no_dot_if_digits)
  have e: "count_list (digits m) CHR ''.'' = 0" for m
    using digits_all_digits by (rule no_dot_if_digits)
  note td = count_take_drop_0 [OF d]
  show ?thesis
    by (simp add: layout_def Let_def d e td count_replicate_0)
qed

lemma pos_to_string_nonempty: "pos_to_string q \<noteq> []"
  by (simp add: pos_to_string_def split_def Let_def layout_nonempty digits_nonempty)

lemma pos_to_string_dots: "count_list (pos_to_string q) CHR ''.'' \<le> 1"
  unfolding pos_to_string_def split_def Let_def
  using digits_all_digits by (rule layout_dots)

lemma toString_nonempty: "toString x \<noteq> []"
  by (cases x) (simp_all add: pos_to_string_nonempty)

lemma toString_dots: "count_list (toString x) CHR ''.'' \<le> 1"
proof (cases x)
  case (Fin q)
  then show ?thesis
    using pos_to_string_dots [of q] pos_to_string_dots [of "- q"] by simp
qed simp_all

subsection \<open>Values that the properties evaluate\<close>

lemma parseFloat_empty: "parseFloat [] = NaN"
  by (simp add: parseFloat_def)

lemma parseFloat_0: "parseFloat ''0'' = Fin 0"
  by code_simp

lemma parseFloat_1: "parseFloat ''1'' = Fin 1"
  by code_simp

lemma parseFloat_2: "parseFloat ''2'' = Fin 2"
  by code_simp

lemma parseFloat_3: "parseFloat ''3'' = Fin 3"
  by code_simp

lemma two_plus_three: "toString (round8 (js_add (Fin 2) (Fin 3))) = ''5''"
  by code_simp

lemma div_positive_by_zero: "is_positive x \<Longrightarrow> js_div x (Fin 0) = PosInf"
  by (cases x) (simp_all add: js_div_def is_inf_def is_zero_def mk_inf_def)

lemma round8_PosInf: "round8 PosInf = PosInf"
  by (simp add: round8_def js_mul_def js_div_def is_inf_def is_zero_def mk_inf_def)

section \<open>Invariants of the state\<close>

subsection \<open>A pending operation has a previous operand\<close>

lemma run_snoc: "run (evs @ [e]) = step (run evs) e"
  by (simp add: run_def)

lemma clear_has_previous: "operation_has_previous (clear s)"
  by (simp add: operation_has_previous_def clear_def)

lemma deleteNumber_has_previous:
  "operation_has_previous s \<Longrightarrow> operation_has_previous (deleteNumber s)"
  by (simp add: operation_has_previous_def deleteNumber_def)

lemma appendNumber_has_previous:
  "operation_has_previous s \<Longrightarrow> operation_has_previous (appendNumber s number)"
  by (simp add: operation_has_previous_def appendNumber_def)

lemma compute_has_previous:
  "operation_has_previous s \<Longrightarrow> operation_has_previous (compute s)"
  by (simp add: operation_has_previous_def compute_def Let_def split: option.splits)

lemma chooseOperation_has_previous:
  "operation_has_previous s \<Longrightarrow> operation_has_previous (chooseOperation s op)"
  by (simp add: operation_has_previous_def chooseOperation_def Let_def toString_nonempty
      split: option.splits)

lemma handleKeyDown_has_previous:
  "operation_has_previous s \<Longrightarrow> operation_has_previous (handleKeyDown s key)"
  by (simp add: handleKeyDown_def clear_has_previous deleteNumber_has_previous
      appendNumber_has_previous compute_has_previous chooseOperation_has_previous)

lemma step_has_previous:
  "operation_has_previous s \<Longrightarrow> operation_has_previous (step s e)"
  by (cases e) (simp_all add: clear_has_previous deleteNumber_has_previous
      appendNumber_has_previous compute_has_previous chooseOperation_has_previous
      handleKeyDown_has_previous)

lemma run_has_previous: "operation_has_previous (run evs)"
proof (induction evs rule: rev_induct)
  case Nil
  show ?case by (simp add: run_def operation_has_previous_def initial_state_def)
next
  case (snoc e evs)
  then show ?case by (simp only: run_snoc step_has_previous)
qed

subsection \<open>Operands have at most one decimal point\<close>

lemma count_list_append: "count_list (xs @ ys) c = count_list xs c + count_list ys c"
  by (induction xs) auto

lemma shape_empty: "operand_shape []"
  by (simp add: operand_shape_def)

lemma shape_digit: "is_digit c \<Longrightarrow> operand_shape [c]"
  using is_digit_cases [of c] by (simp add: operand_shape_def)

lemma shape_dot: "operand_shape ''.''" "operand_shape ''0.''"
  by (simp_all add: operand_shape_def is_digit_def)

lemma shape_append_digit:
  "operand_shape cur \<Longrightarrow> is_digit c \<Longrightarrow> operand_shape (cur @ [c])"
  using is_digit_cases [of c] by (simp add: operand_shape_def count_list_append)

lemma shape_append_dot:
  "operand_shape cur \<Longrightarrow> CHR ''.'' \<notin> set cur \<Longrightarrow> operand_shape (cur @ ''.'')"
  by (simp add: operand_shape_def count_list_append count_list_0_iff)

lemma shape_butlast: "operand_shape cur \<Longrightarrow> operand_shape (butlast cur)"
proof (cases "cur = []")
  case True
  then show ?thesis by (simp add: shape_empty)
next
  case False
  assume sh: "operand_shape cur"
  have "cur = butlast cur @ [last cur]" using False by simp
  then have "count_list cur CHR ''.''
      = count_list (butlast cur) CHR ''.'' + count_list [last cur] CHR ''.''"
    by (metis count_list_append)
  then have "count_list (butlast cur) CHR ''.'' \<le> count_list cur CHR ''.''"
    by simp
  moreover have "list_all (\<lambda>c. is_digit c \<or> c = CHR ''.'') (butlast cur)"
    using sh by (auto simp: operand_shape_def list_all_iff dest: in_set_butlastD)
  ultimately show ?thesis
    using sh by (simp add: operand_shape_def)
qed

lemma shape_dots: "operand_shape cur \<Longrightarrow> count_list cur CHR ''.'' \<le> 1"
  by (simp add: operand_shape_def)

lemma digit_entry_cases:
  "digit_entry d \<Longrightarrow> d = ''.'' \<or> (\<exists>c. d = [c] \<and> is_digit c)"
  by (cases d) (auto simp: digit_entry_def)

lemma clear_well_shaped: "operands_well_shaped (clear s)"
  by (simp add: operands_well_shaped_def clear_def shape_empty)

lemma deleteNumber_well_shaped:
  "operands_well_shaped s \<Longrightarrow> operands_well_shaped (deleteNumber s)"
proof (cases "overwrite s")
  case True
  assume "operands_well_shaped s"
  then show ?thesis
    using True by (simp add: operands_well_shaped_def deleteNumber_def shape_empty)
next
  case False
  assume w: "operands_well_shaped s"
  then have "operand_shape (currentOperand s)"
    using False by (simp add: operands_well_shaped_def)
  then have b: "operand_shape (butlast (currentOperand s))"
    by (rule shape_butlast)
  then have "count_list (butlast (currentOperand s)) CHR ''.'' \<le> 1"
    by (rule shape_dots)
  then have "operands_well_shaped (s\<lparr>currentOperand := butlast (currentOperand s)\<rparr>)"
    using w b by (simp add: operands_well_shaped_def)
  then show ?thesis
    using w False by (simp add: deleteNumber_def)
qed

lemma appendNumber_well_shaped:
  assumes "operands_well_shaped s" "digit_entry number"
  shows "operands_well_shaped (appendNumber s number)"
proof -
  from assms(2) consider "number = ''.''" | c where "number = [c]" "is_digit c"
    using digit_entry_cases by blast
  then show ?thesis
  proof cases
    case 1
    have "operands_well_shaped (s\<lparr>currentOperand := ''.'', overwrite := False\<rparr>)"
      using assms(1) by (simp add: operands_well_shaped_def shape_dot)
    moreover have "operands_well_shaped (s\<lparr>currentOperand := ''0.''\<rparr>)"
      using assms(1) by (simp add: operands_well_shaped_def shape_dot)
    moreover have "\<not> overwrite s \<Longrightarrow> CHR ''.'' \<notin> set (currentOperand s) \<Longrightarrow>
        operands_well_shaped (s\<lparr>currentOperand := currentOperand s @ ''.''\<rparr>)"
      using assms(1) shape_dots [OF shape_append_dot [of "currentOperand s"]]
      by (simp add: operands_well_shaped_def shape_append_dot)
    ultimately show ?thesis
      using assms(1) 1 by (simp add: appendNumber_def)
  next
    case 2
    have c: "c \<noteq> CHR ''.''" using is_digit_cases [OF 2(2)] by simp
    have "operands_well_shaped (s\<lparr>currentOperand := [c], overwrite := False\<rparr>)"
      using assms(1) c by (simp add: operands_well_shaped_def shape_digit 2(2))
    moreover have "\<not> overwrite s \<Longrightarrow>
        operands_well_shaped (s\<lparr>currentOperand := currentOperand s @ [c]\<rparr>)"
      using assms(1) c
      by (simp add: operands_well_shaped_def shape_append_digit 2(2) count_list_append)
    ultimately show ?thesis
      using assms(1) 2(1) c by (simp add: appendNumber_def)
  qed
qed

lemma compute_well_shaped:
  "operands_well_shaped s \<Longrightarrow> operands_well_shaped (compute s)"
  using toString_dots
  by (simp add: operands_well_shaped_def compute_def Let_def split: option.splits)

lemma chooseOperation_well_shaped:
  "operands_well_shaped s \<Longrightarrow> operands_well_shaped (chooseOperation s op)"
  using toString_dots
  by (simp add: operands_well_shaped_def chooseOperation_def Let_def shape_empty
      split: option.splits)

lemma char_in_digit_range:
  assumes "js_less_eq ''0'' [c]" "js_less_eq [c] ''9''"
  shows "is_digit c"
proof -
  define n where "n = (of_char c :: nat)"
  have c: "c = char_of n" by (simp add: n_def)
  have "48 \<le> n" "n \<le> 57"
    using assms by (simp_all add: js_less_eq_def n_def split: if_splits)
  then have "n = 48 \<or> n = 49 \<or> n = 50 \<or> n = 51 \<or> n = 52 \<or> n = 53 \<or> n = 54 \<or> n = 55
      \<or> n = 56 \<or> n = 57"
    by arith
  moreover have "is_digit (char_of (48 :: nat))" "is_digit (char_of (49 :: nat))"
    "is_digit (char_of (50 :: nat))" "is_digit (char_of (51 :: nat))"
    "is_digit (char_of (52 :: nat))" "is_digit (char_of (53 :: nat))"
    "is_digit (char_of (54 :: nat))" "is_digit (char_of (55 :: nat))"
    "is_digit (char_of (56 :: nat))" "is_digit (char_of (57 :: nat))"
    by code_simp+
  ultimately show ?thesis
    unfolding c by blast
qed

lemma plain_key_in_range:
  assumes "plain_key key" "js_less_eq ''0'' key" "js_less_eq key ''9''"
  shows "digit_entry key"
proof -
  have "length key = 1" using assms by (simp add: plain_key_def)
  then obtain c where key: "key = [c]"
    by (cases key) auto
  have "is_digit c"
    using assms(2,3) unfolding key by (rule char_in_digit_range)
  then show ?thesis by (simp add: key digit_entry_def)
qed

lemma handleKeyDown_well_shaped:
  assumes "operands_well_shaped s" "plain_key key"
  shows "operands_well_shaped (handleKeyDown s key)"
proof (cases "js_less_eq ''0'' key \<and> js_less_eq key ''9''")
  case True
  then have "digit_entry key" using assms(2) plain_key_in_range by blast
  then show ?thesis
    using True assms(1) by (simp add: handleKeyDown_def appendNumber_well_shaped)
next
  case False
  have "digit_entry ''.''" by (simp add: digit_entry_def)
  then have "operands_well_shaped (appendNumber s ''.'')"
    using assms(1) by (simp add: appendNumber_well_shaped)
  moreover have "handleKeyDown s key =
      (if key = ''.'' then appendNumber s ''.''
       else if key = ''='' \<or> key = ''Enter'' then compute s
       else if key = ''Backspace'' then deleteNumber s
       else if key = ''Escape'' then clear s
       else if key = ''+'' \<or> key = ''-'' \<or> key = ''*'' \<or> key = ''/'' then
         chooseOperation s (if key = ''/'' then division_sign else key)
       else s)"
    unfolding handleKeyDown_def by (rule if_not_P [OF False])
  ultimately show ?thesis
    using assms(1)
    by (simp add: clear_well_shaped deleteNumber_well_shaped
        compute_well_shaped chooseOperation_well_shaped)
qed

lemma step_well_shaped:
  "operands_well_shaped s \<Longrightarrow> button_event e \<Longrightarrow> operands_well_shaped (step s e)"
  by (cases e) (simp_all add: clear_well_shaped deleteNumber_well_shaped
      appendNumber_well_shaped compute_well_shaped chooseOperation_well_shaped
      handleKeyDown_well_shaped)

lemma run_well_shaped: "list_all button_event evs \<Longrightarrow> operands_well_shaped (run evs)"
proof (induction evs rule: rev_induct)
  case Nil
  show ?case
    by (simp add: run_def operands_well_shaped_def initial_state_def shape_empty)
next
  case (snoc e evs)
  then show ?case by (simp add: run_snoc step_well_shaped)
qed

subsection \<open>The keys that are not taken for digits\<close>

lemma digit_in_range: "is_digit c \<Longrightarrow> js_less_eq ''0'' [c] \<and> js_less_eq [c] ''9''"
  by (auto simp: is_digit_def js_less_eq_def)

text \<open>On a plain key the listener does what the name of the key says.\<close>

lemma handleKeyDown_plain_key:
  assumes "plain_key key"
  shows "handleKeyDown s key =
     (if digit_entry key then appendNumber s key
      else if key = ''='' \<or> key = ''Enter'' then compute s
      else if key = ''Backspace'' then deleteNumber s
      else if key = ''Escape'' then clear s
      else if key = ''+'' \<or> key = ''-'' \<or> key = ''*'' then chooseOperation s key
      else if key = ''/'' then chooseOperation s division_sign
      else s)"
proof (cases "js_less_eq ''0'' key \<and> js_less_eq key ''9''")
  case True
  then have "digit_entry key"
    using assms plain_key_in_range by blast
  then show ?thesis
    using True by (simp add: handleKeyDown_def)
next
  case False
  have d: "digit_entry key \<longleftrightarrow> key = ''.''"
  proof
    assume "digit_entry key"
    then consider "key = ''.''" | c where "key = [c]" "is_digit c"
      using digit_entry_cases by blast
    then show "key = ''.''"
    proof cases
      case 1
      then show ?thesis .
    next
      case 2
      then show ?thesis
        using False digit_in_range [of c] by simp
    qed
  next
    assume "key = ''.''"
    then show "digit_entry key" by (simp add: digit_entry_def)
  qed
  have "handleKeyDown s key =
      (if key = ''.'' then appendNumber s ''.''
       else if key = ''='' \<or> key = ''Enter'' then compute s
       else if key = ''Backspace'' then deleteNumber s
       else if key = ''Escape'' then clear s
       else if key = ''+'' \<or> key = ''-'' \<or> key = ''*'' \<or> key = ''/'' then
         chooseOperation s (if key = ''/'' then division_sign else key)
       else s)"
    unfolding handleKeyDown_def by (rule if_not_P [OF False])
  then show ?thesis
    by (auto simp: d)
qed

lemma appendNumber_dot_on_empty:
  "currentOperand s = [] \<Longrightarrow> \<not> overwrite s \<Longrightarrow>
   appendNumber s ''.'' = s\<lparr>currentOperand := ''0.''\<rparr>"
  by (simp add: appendNumber_def)

section \<open>Properties of the calculator\<close>

text \<open>
  C1. In the state with previous operand "2", pending operation "+" and current operand
  "3", whatever the overwrite flag, \<^verbatim>\<open>compute\<close> gives the current operand "5", an
  empty previous operand, no pending operation and the overwrite flag set.
\<close>

theorem compute_two_plus_three:
  "compute \<lparr>currentOperand = ''3'', previousOperand = ''2'', operation = Some ''+'',
             overwrite = ow\<rparr>
   = \<lparr>currentOperand = ''5'', previousOperand = [], operation = None, overwrite = True\<rparr>"
  by (simp add: compute_def parseFloat_2 parseFloat_3 isNaN_def switch_operation_def
      two_plus_three)

text \<open>
  C2. Chained operations fold from left to right. From the initial state, "2" and "+"
  make "2" the previous operand; after "3", pressing "*" folds to the previous operand
  "5" with the pending operation "*"; after "4", \<^verbatim>\<open>compute\<close> gives "20".
\<close>

theorem chained_operations_fold_left:
  "run [AppendNumber ''2'', ChooseOperation ''+'']
     = \<lparr>currentOperand = [], previousOperand = ''2'', operation = Some ''+'',
        overwrite = False\<rparr>
   \<and> run [AppendNumber ''2'', ChooseOperation ''+'', AppendNumber ''3'', ChooseOperation ''*'']
     = \<lparr>currentOperand = [], previousOperand = ''5'', operation = Some ''*'',
        overwrite = False\<rparr>
   \<and> run [AppendNumber ''2'', ChooseOperation ''+'', AppendNumber ''3'', ChooseOperation ''*'',
          AppendNumber ''4'', Compute]
     = \<lparr>currentOperand = ''20'', previousOperand = [], operation = None,
        overwrite = True\<rparr>"
  by code_simp

text \<open>
  C3 fails on the code. After "2 + 3 =" and "+", the current operand is empty and the
  overwrite flag is still set, since \<^verbatim>\<open>chooseOperation\<close> does not reset it; a decimal
  point then takes the overwrite branch of \<^verbatim>\<open>appendNumber\<close> and the current operand
  becomes "." instead of "0.". With the flag not set the code does give "0.", which is
  \<open>appendNumber_dot_on_empty\<close>.
\<close>

theorem decimal_point_after_result_and_operator:
  "run [AppendNumber ''2'', ChooseOperation ''+'', AppendNumber ''3'', Compute,
        ChooseOperation ''+'']
     = \<lparr>currentOperand = [], previousOperand = ''5'', operation = Some ''+'',
        overwrite = True\<rparr>
   \<and> appendNumber
       (run [AppendNumber ''2'', ChooseOperation ''+'', AppendNumber ''3'', Compute,
             ChooseOperation ''+'']) ''.''
     = \<lparr>currentOperand = ''.'', previousOperand = ''5'', operation = Some ''+'',
        overwrite = False\<rparr>"
  by code_simp

text \<open>
  C4. \<^verbatim>\<open>compute\<close> leaves the state as it is whenever the previous or the current
  operand does not parse as a number; the empty string is such an operand.
\<close>

theorem compute_noop_unparsable:
  "isNaN (parseFloat (previousOperand s)) \<or> isNaN (parseFloat (currentOperand s))
   \<Longrightarrow> compute s = s"
  by (auto simp: compute_def Let_def)

text \<open>The initial state, whose operands are empty, is an instance.\<close>

theorem compute_noop_unparsable_witness:
  "(isNaN (parseFloat (previousOperand initial_state))
      \<or> isNaN (parseFloat (currentOperand initial_state)))
   \<and> previousOperand initial_state = []
   \<and> compute initial_state = initial_state"
  using compute_noop_unparsable [of initial_state]
  by (simp add: initial_state_def parseFloat_empty isNaN_def)

text \<open>
  C5. With the overwrite flag set, \<^verbatim>\<open>deleteNumber\<close> empties the current operand and
  resets the flag. With the flag not set it removes the last character of the current
  operand, and changes nothing when the current operand is empty.
\<close>

theorem deleteNumber_cases:
  "(overwrite s \<longrightarrow> deleteNumber s = s\<lparr>currentOperand := [], overwrite := False\<rparr>)
   \<and> (\<not> overwrite s \<longrightarrow> currentOperand s = xs @ [c] \<longrightarrow>
        deleteNumber s = s\<lparr>currentOperand := xs\<rparr>)
   \<and> (\<not> overwrite s \<longrightarrow> currentOperand s = [] \<longrightarrow> deleteNumber s = s)"
  by (simp add: deleteNumber_def)

text \<open>Deleting after a result, deleting the last digit of "12", and deleting nothing.\<close>

theorem deleteNumber_cases_witness:
  "deleteNumber \<lparr>currentOperand = ''5'', previousOperand = [], operation = None,
                 overwrite = True\<rparr>
     = \<lparr>currentOperand = [], previousOperand = [], operation = None, overwrite = False\<rparr>
   \<and> deleteNumber \<lparr>currentOperand = ''12'', previousOperand = [], operation = None,
                   overwrite = False\<rparr>
     = \<lparr>currentOperand = ''1'', previousOperand = [], operation = None, overwrite = False\<rparr>
   \<and> deleteNumber initial_state = initial_state"
  using
    deleteNumber_cases [of "\<lparr>currentOperand = ''5'', previousOperand = [], operation = None,
                             overwrite = True\<rparr>"]
    deleteNumber_cases [of "\<lparr>currentOperand = ''12'', previousOperand = [], operation = None,
                             overwrite = False\<rparr>" "''1''" "CHR ''2''"]
    deleteNumber_cases [of initial_state]
  by (simp add: initial_state_def)

text \<open>
  C6. In every state that a list of events leads to from the initial state, a pending
  operation comes with a non-empty previous operand. The events are the five operations
  with any argument, and the key presses.
\<close>

theorem operation_set_only_with_previous:
  "operation (run evs) \<noteq> None \<longrightarrow> previousOperand (run evs) \<noteq> []"
  using run_has_previous [of evs] by (auto simp: operation_has_previous_def)

text \<open>After "2" and "+" the operation is set and the previous operand is "2".\<close>

theorem operation_set_only_with_previous_witness:
  "operation (run [AppendNumber ''2'', ChooseOperation ''+'']) = Some ''+''
   \<and> previousOperand (run [AppendNumber ''2'', ChooseOperation ''+'']) = ''2''"
proof -
  have "run [AppendNumber ''2'', ChooseOperation ''+'']
     = \<lparr>currentOperand = [], previousOperand = ''2'', operation = Some ''+'',
        overwrite = False\<rparr>"
    by code_simp
  with operation_set_only_with_previous [of "[AppendNumber ''2'', ChooseOperation ''+'']"]
  show ?thesis by simp
qed

text \<open>
  C7, as amended. After any list of events whose digit entries are one digit or a decimal
  point, each operand has at most one decimal point, and the current operand consists of
  digits and at most one decimal point whenever the overwrite flag is not set, that is,
  whenever it was typed. Nothing more is stated of a result that \<^verbatim>\<open>compute\<close> or
  \<^verbatim>\<open>chooseOperation\<close> stores.
\<close>

theorem typed_operands_keep_shape:
  assumes "list_all button_event evs"
  shows "(\<not> overwrite (run evs) \<longrightarrow> operand_shape (currentOperand (run evs)))
         \<and> count_list (currentOperand (run evs)) CHR ''.'' \<le> 1
         \<and> count_list (previousOperand (run evs)) CHR ''.'' \<le> 1"
  using run_well_shaped [OF assms] by (simp add: operands_well_shaped_def)

text \<open>Typing ".5 - 1.", a second decimal point that is ignored, and "2".\<close>

theorem typed_operands_keep_shape_witness:
  "list_all button_event
     [AppendNumber ''.'', AppendNumber ''5'', ChooseOperation ''-'', KeyDown ''1'',
      KeyDown ''.'', AppendNumber ''.'', AppendNumber ''2'']
   \<and> currentOperand
       (run [AppendNumber ''.'', AppendNumber ''5'', ChooseOperation ''-'', KeyDown ''1'',
             KeyDown ''.'', AppendNumber ''.'', AppendNumber ''2'']) = ''1.2''
   \<and> operand_shape ''1.2''"
proof -
  have h: "list_all button_event
     [AppendNumber ''.'', AppendNumber ''5'', ChooseOperation ''-'', KeyDown ''1'',
      KeyDown ''.'', AppendNumber ''.'', AppendNumber ''2'']"
    by code_simp
  have r: "run [AppendNumber ''.'', AppendNumber ''5'', ChooseOperation ''-'', KeyDown ''1'',
             KeyDown ''.'', AppendNumber ''.'', AppendNumber ''2'']
     = \<lparr>currentOperand = ''1.2'', previousOperand = ''0.5'', operation = Some ''-'',
        overwrite = False\<rparr>"
    by code_simp
  from typed_operands_keep_shape [OF h] h show ?thesis
    by (simp add: r)
qed

text \<open>
  C7, as stated, fails for the result that \<^verbatim>\<open>compute\<close> stores: "2 - 3 =" leaves the
  current operand "-1", which is not made of digits and decimal points.
\<close>

theorem negative_result_counterexample:
  "currentOperand (run [AppendNumber ''2'', ChooseOperation ''-'', AppendNumber ''3'', Compute])
     = ''-1''
   \<and> \<not> operand_shape
         (currentOperand
            (run [AppendNumber ''2'', ChooseOperation ''-'', AppendNumber ''3'', Compute]))"
  by code_simp


text \<open>
  C9, as amended. When the integer part of an operand is a non-empty string of digits
  whose value is below \<open>2 ^ 53\<close>, and the operand has at most one decimal point,
  \<^verbatim>\<open>formatOperand\<close> returns the value of the integer part in decimal with thousands
  separators, followed, when there is a decimal point, by the point and the decimal
  digits as they are.
\<close>

theorem formatOperand_digits:
  assumes "takeWhile (\<lambda>c. c \<noteq> CHR ''.'') s \<noteq> []"
    and "list_all is_digit (takeWhile (\<lambda>c. c \<noteq> CHR ''.'') s)"
    and "int_of_digits (takeWhile (\<lambda>c. c \<noteq> CHR ''.'') s) < 2 ^ 53"
    and "count_list s CHR ''.'' \<le> 1"
  shows "formatOperand (Some s) = Some (claimed_format s)"
proof -
  define ip where "ip = takeWhile (\<lambda>c. c \<noteq> CHR ''.'') s"
  define rest where "rest = dropWhile (\<lambda>c. c \<noteq> CHR ''.'') s"
  have s: "s \<noteq> []" using assms(1) by auto
  have pf: "parseFloat ip = Fin (of_int (int_of_digits ip))"
    using assms(1-3) unfolding ip_def by (rule parseFloat_digits)
  have nn: "0 \<le> int_of_digits ip"
    using assms(2) unfolding ip_def by (rule int_of_digits_nonneg)
  have fmt: "NumberFormat_format (parseFloat ip) = group_thousands (digits (int_of_digits ip))"
    by (simp only: pf NumberFormat_format_of_int [OF nn])
  show ?thesis
  proof (cases rest)
    case Nil
    then show ?thesis
      using s fmt
      by (simp add: formatOperand_def claimed_format_def Let_def ip_def [symmetric]
          rest_def [symmetric])
  next
    case (Cons a r)
    have "a = CHR ''.''"
      using Cons by (simp add: rest_def dropWhile_eq_Cons_conv)
    then have rest: "rest = CHR ''.'' # r" using Cons by simp
    have "takeWhile (\<lambda>c. c \<noteq> CHR ''.'') r = r"
      using assms(4) rest unfolding rest_def by (rule count_le_1_split)
    then show ?thesis
      using s fmt rest
      by (simp add: formatOperand_def claimed_format_def Let_def ip_def [symmetric]
          rest_def [symmetric])
  qed
qed

text \<open>The operand "1234.500" is displayed as "1,234.500".\<close>

theorem formatOperand_digits_witness:
  "int_of_digits ''1234'' < 2 ^ 53
   \<and> formatOperand (Some ''1234.500'') = Some ''1,234.500''"
proof -
  have h1: "takeWhile (\<lambda>c. c \<noteq> CHR ''.'') ''1234.500'' \<noteq> []"
    by simp
  have h2: "list_all is_digit (takeWhile (\<lambda>c. c \<noteq> CHR ''.'') ''1234.500'')"
    by (simp add: is_digit_def)
  have v: "int_of_digits ''1234'' = 1234"
    by code_simp
  have h3: "int_of_digits (takeWhile (\<lambda>c. c \<noteq> CHR ''.'') ''1234.500'') < 2 ^ 53"
    by (simp add: v)
  have h4: "count_list ''1234.500'' CHR ''.'' \<le> 1"
    by simp
  have g: "group_thousands (digits 1234) = ''1,234''"
    by code_simp
  have "claimed_format ''1234.500'' = ''1,234.500''"
    by (simp add: claimed_format_def v g)
  with formatOperand_digits [OF h1 h2 h3 h4] show ?thesis
    by (simp add: v)
qed

text \<open>
  C9, as stated, fails in two ways. The integer part goes through \<^verbatim>\<open>parseFloat\<close>, so
  an integer part that no binary64 number represents is displayed as its neighbour: the
  operand "9007199254740993" is displayed as "9,007,199,254,740,992". And the operand ".",
  which a decimal point typed over a result produces, has an empty integer part, which
  parses to \<open>NaN\<close>: the display is "NaN." instead of digits with separators.
\<close>

theorem formatOperand_counterexample:
  "formatOperand (Some ''9007199254740993'') = Some ''9,007,199,254,740,992''
   \<and> claimed_format ''9007199254740993'' = ''9,007,199,254,740,993''
   \<and> formatOperand (Some ''.'') = Some ''NaN.''
   \<and> formatOperand (Some ''.'') \<noteq> Some (claimed_format ''.'')"
  by code_simp

text \<open>
  C10. Division by zero is not guarded: when the previous operand parses to a positive
  number, the pending operation is the division sign and the current operand is "0",
  \<^verbatim>\<open>compute\<close> stores "Infinity" as the current operand, clears the previous operand
  and the operation and sets the overwrite flag; the state does change.
\<close>

theorem compute_division_by_zero:
  assumes "is_positive (parseFloat (previousOperand s))"
    and "operation s = Some division_sign"
    and "currentOperand s = ''0''"
  shows "compute s = s\<lparr>currentOperand := ''Infinity'', operation := None,
                         previousOperand := [], overwrite := True\<rparr>
         \<and> compute s \<noteq> s"
proof -
  have pos: "parseFloat (previousOperand s) \<noteq> NaN"
    using assms(1) by auto
  have sw: "switch_operation (operation s) (parseFloat (previousOperand s)) (Fin 0)
            = Some PosInf"
    using assms(1,2)
    by (simp add: switch_operation_def division_sign_def div_positive_by_zero)
  have c: "compute s = s\<lparr>currentOperand := ''Infinity'', operation := None,
                         previousOperand := [], overwrite := True\<rparr>"
    using pos sw assms(3)
    by (simp add: compute_def isNaN_def parseFloat_0 round8_PosInf)
  have "currentOperand (compute s) \<noteq> currentOperand s"
    using assms(3) by (simp add: c)
  then have ne: "compute s \<noteq> s"
    by (rule contrapos_nn) simp
  from c ne show ?thesis
    by (rule conjI)
qed

text \<open>One divided by zero.\<close>

theorem compute_division_by_zero_witness:
  "is_positive (parseFloat ''1'')
   \<and> compute \<lparr>currentOperand = ''0'', previousOperand = ''1'',
               operation = Some division_sign, overwrite = False\<rparr>
     = \<lparr>currentOperand = ''Infinity'', previousOperand = [], operation = None,
        overwrite = True\<rparr>"
  using compute_division_by_zero
    [of "\<lparr>currentOperand = ''0'', previousOperand = ''1'',
          operation = Some division_sign, overwrite = False\<rparr>"]
  by (simp add: parseFloat_1)

end
